theory Spec2Isabelle
  imports Complex_Main
begin

section \<open>Python strings\<close>

text \<open>
  A Python \<open>str\<close> is modelled as a \<^typ>\<open>string\<close>, one \<^typ>\<open>char\<close> per code point, so the
  model covers the strings whose code points are below 256. \<open>ord\<close> is the code point.
\<close>

definition ord :: "char \<Rightarrow> nat" where
  "ord c = of_char c"

text \<open>
  \<open>str.isspace\<close> on one character. Below 256 the whitespace code points are
  9..13, 28..32, 133 and 160.
\<close>

definition isspace :: "char \<Rightarrow> bool" where
  "isspace c = ((9 \<le> ord c \<and> ord c \<le> 13) \<or> (28 \<le> ord c \<and> ord c \<le> 32)
                 \<or> ord c = 133 \<or> ord c = 160)"

text \<open>\<open>s.strip()\<close>: leading and trailing whitespace removed.\<close>

definition strip :: "string \<Rightarrow> string" where
  "strip s = rev (dropWhile isspace (rev (dropWhile isspace s)))"

text \<open>\<open>s.startswith(p)\<close>, written \<open>is_prefix p s\<close>.\<close>

fun is_prefix :: "string \<Rightarrow> string \<Rightarrow> bool" where
  "is_prefix [] s = True"
| "is_prefix (p # ps) [] = False"
| "is_prefix (p # ps) (c # cs) = (p = c \<and> is_prefix ps cs)"

text \<open>The substring test \<open>sub in s\<close>.\<close>

fun py_in :: "string \<Rightarrow> string \<Rightarrow> bool" where
  "py_in sub [] = (sub = [])"
| "py_in sub (c # cs) = (is_prefix sub (c # cs) \<or> py_in sub cs)"

text \<open>
  The text before and after the first (leftmost) occurrence of \<open>sep\<close> in \<open>s\<close>, if there is
  one.
\<close>

fun split_first :: "string \<Rightarrow> string \<Rightarrow> (string \<times> string) option" where
  "split_first sep [] = (if sep = [] then Some ([], []) else None)"
| "split_first sep (c # cs) =
     (if is_prefix sep (c # cs) then Some ([], drop (length sep) (c # cs))
      else map_option (\<lambda>(a, b). (c # a, b)) (split_first sep cs))"

section \<open>Errors\<close>

text \<open>
  Every \<open>raise\<close> of the program is a value of \<open>error\<close>. The program raises \<open>ValueError\<close>
  with different messages; the constructors are the kinds of message, carrying the
  texts the message is formatted from (for \<open>InvalidFormat\<close>: which condition, \<open>filter\<close> or
  \<open>aggregation\<close>, and the condition string; for \<open>NonNumericValue\<close>: the column and the text
  of the cell). \<open>KeyError\<close>, \<open>TypeError\<close>,
  \<open>ZeroDivisionError\<close> and \<open>OverflowError\<close> are the exceptions of the interpreter that the
  program does not catch, \<open>EmptySeparator\<close> is the \<open>ValueError\<close> of \<open>str.split\<close> for an
  empty separator.
\<close>

datatype error =
    NotFound string
  | ReadError string
  | InvalidFormat string string
  | ColumnNotFound string
  | UnsupportedOperator string
  | UnsupportedFunction string
  | NonNumericValue string string
  | KeyError string
  | TypeError
  | EmptySeparator
  | ZeroDivisionError
  | OverflowError

text \<open>\<open>s.split(sep, 1)\<close>: at most one split, at the first occurrence of \<open>sep\<close>.\<close>

definition py_split1 :: "string \<Rightarrow> string \<Rightarrow> error + string list" where
  "py_split1 sep s =
     (if sep = [] then Inl EmptySeparator
      else case split_first sep s of
             None \<Rightarrow> Inr [s]
           | Some (a, b) \<Rightarrow> Inr [a, b])"

section \<open>Condition parser\<close>

definition operators :: "string list" where
  "operators = [''>='', ''<='', ''>'', ''<'', ''='', ''!='']"

definition op_mapping :: "string \<rightharpoonup> string" where
  "op_mapping = map_of
     [(''='', ''eq''), (''>'', ''gt''), (''<'', ''lt''),
      (''>='', ''gte''), (''<='', ''lte''), (''!='', ''ne'')]"

text \<open>
  The \<open>for op in operators\<close> loop of \<open>parse_filter_condition\<close>, on the operators that are
  still to be tried; the \<open>raise\<close> after the loop is the empty case.
\<close>

fun parse_filter_loop :: "string list \<Rightarrow> string \<Rightarrow> error + (string \<times> string \<times> string)" where
  "parse_filter_loop [] condition = Inl (InvalidFormat ''filter'' condition)"
| "parse_filter_loop (op # ops) condition =
     (if py_in op condition then
        (case py_split1 op condition of
           Inl e \<Rightarrow> Inl e
         | Inr parts \<Rightarrow>
             if length parts = 2 then
               (let column = strip (parts ! 0); val = strip (parts ! 1)
                in case op_mapping op of
                     Some tag \<Rightarrow> Inr (column, tag, val)
                   | None \<Rightarrow> parse_filter_loop ops condition)
             else parse_filter_loop ops condition)
      else parse_filter_loop ops condition)"

definition parse_filter_condition :: "string \<Rightarrow> error + (string \<times> string \<times> string)" where
  "parse_filter_condition condition = parse_filter_loop operators condition"

definition parse_aggregation_condition :: "string \<Rightarrow> error + (string \<times> string)" where
  "parse_aggregation_condition condition =
     (if \<not> py_in ''='' condition then Inl (InvalidFormat ''aggregation'' condition)
      else case py_split1 ''='' condition of
             Inl e \<Rightarrow> Inl e
           | Inr parts \<Rightarrow>
               if length parts \<noteq> 2 then Inl (InvalidFormat ''aggregation'' condition)
               else (let function = strip (parts ! 0); column = strip (parts ! 1)
                     in Inr (function, column)))"

section \<open>Floating-point numbers\<close>

text \<open>
  A Python \<open>float\<close> is an IEEE 754 binary64 number: a finite value (a rational with a
  53-bit significand), an infinity or a NaN. The two zeros compare equal and are
  identified: comparison, addition and the division by a length, which are the operations
  of the program, do not tell them apart.
\<close>

datatype pyfloat = Finite rat | PosInf | NegInf | NaN

text \<open>The comparisons \<open><\<close> and \<open>>\<close> on floats; every comparison with a NaN is false.\<close>

fun float_lt :: "pyfloat \<Rightarrow> pyfloat \<Rightarrow> bool" where
  "float_lt NaN y = False"
| "float_lt x NaN = False"
| "float_lt (Finite a) (Finite b) = (a < b)"
| "float_lt (Finite a) PosInf = True"
| "float_lt (Finite a) NegInf = False"
| "float_lt PosInf y = False"
| "float_lt NegInf NegInf = False"
| "float_lt NegInf y = True"

fun float_gt :: "pyfloat \<Rightarrow> pyfloat \<Rightarrow> bool" where
  "float_gt NaN y = False"
| "float_gt x NaN = False"
| "float_gt (Finite a) (Finite b) = (a > b)"
| "float_gt (Finite a) PosInf = False"
| "float_gt (Finite a) NegInf = True"
| "float_gt NegInf y = False"
| "float_gt PosInf PosInf = False"
| "float_gt PosInf y = True"

text \<open>Powers of two and ten with an integer exponent.\<close>

definition pow_int :: "rat \<Rightarrow> int \<Rightarrow> rat" where
  "pow_int b k = (if 0 \<le> k then b ^ nat k else 1 / b ^ nat (- k))"

text \<open>The number of binary digits of a positive integer (\<open>int.bit_length\<close>).\<close>

function bit_length :: "int \<Rightarrow> int" where
  "bit_length n = (if n \<le> 0 then 0 else 1 + bit_length (n div 2))"
  by pat_completeness auto
termination
  by (relation "measure nat") auto

text \<open>
  \<open>ilog2 x\<close> is the binary exponent of a positive rational: \<open>2 ^ ilog2 x \<le> x < 2 ^ (ilog2 x + 1)\<close>.
  The difference of the bit lengths of numerator and denominator is this exponent or one
  more.
\<close>

definition ilog2 :: "rat \<Rightarrow> int" where
  "ilog2 x = (let (p, q) = quotient_of x; k = bit_length p - bit_length q
              in if pow_int 2 k \<le> x then k else k - 1)"

definition round_half_even :: "rat \<Rightarrow> int" where
  "round_half_even x =
     (let f = \<lfloor>x\<rfloor>; r = x - of_int f
      in if r < 1 / 2 then f
         else if 1 / 2 < r then f + 1
         else if even f then f else f + 1)"

text \<open>
  Rounding a rational to binary64, to nearest with ties to even: the spacing of the
  floats around \<open>x\<close> is \<open>2 ^ (e - 52)\<close> for the exponent \<open>e\<close> of \<open>x\<close>, which is at least
  \<open>-1022\<close> (below that the spacing stays \<open>2 ^ -1074\<close>, the subnormal range); a result of
  \<open>2 ^ 1024\<close> or more overflows to an infinity.
\<close>

definition binary64 :: "rat \<Rightarrow> pyfloat" where
  "binary64 x =
     (if x = 0 then Finite 0
      else let a = \<bar>x\<bar>;
               e = max (ilog2 a) (- 1022);
               ulp = pow_int 2 (e - 52);
               m = of_int (round_half_even (a / ulp)) * ulp
           in if pow_int 2 1024 \<le> m then (if 0 < x then PosInf else NegInf)
              else Finite (if 0 < x then m else - m))"

text \<open>Float addition.\<close>

fun float_add :: "pyfloat \<Rightarrow> pyfloat \<Rightarrow> pyfloat" where
  "float_add NaN y = NaN"
| "float_add x NaN = NaN"
| "float_add (Finite a) (Finite b) = binary64 (a + b)"
| "float_add (Finite a) y = y"
| "float_add x (Finite b) = x"
| "float_add PosInf PosInf = PosInf"
| "float_add NegInf NegInf = NegInf"
| "float_add PosInf NegInf = NaN"
| "float_add NegInf PosInf = NaN"

section \<open>Parsing a float\<close>

text \<open>
  \<open>float(s)\<close> for a string: whitespace is removed at both ends, and what is left must be,
  in whole, an optional sign followed by a decimal number with an optional exponent, or
  by \<open>inf\<close>, \<open>infinity\<close> or \<open>nan\<close> in any case. A single underscore may stand between two
  digits. \<open>None\<close> is the \<open>ValueError\<close>.

  The whitespace that \<open>float\<close> removes is not that of \<open>strip\<close>: the code points 28..31
  are not removed.
\<close>

definition float_space :: "char \<Rightarrow> bool" where
  "float_space c = ((9 \<le> ord c \<and> ord c \<le> 13) \<or> ord c = 32 \<or> ord c = 133 \<or> ord c = 160)"

definition float_strip :: "string \<Rightarrow> string" where
  "float_strip s = rev (dropWhile float_space (rev (dropWhile float_space s)))"

definition is_digit :: "char \<Rightarrow> bool" where
  "is_digit c = (48 \<le> ord c \<and> ord c \<le> 57)"

definition digit_value :: "char \<Rightarrow> int" where
  "digit_value c = int (ord c) - 48"

definition to_lower :: "char \<Rightarrow> char" where
  "to_lower c = (if 65 \<le> ord c \<and> ord c \<le> 90 then char_of (ord c + 32) else c)"

text \<open>
  The longest digit part at the start of a string, \<open>digit (["_"] digit)*\<close>: its digits and
  the rest of the string. No digits are returned when the string does not start with a digit.
\<close>

fun digitpart :: "string \<Rightarrow> int list \<times> string" where
  "digitpart [] = ([], [])"
| "digitpart (c # cs) =
     (if is_digit c then
        (case cs of
           u # d # cs' \<Rightarrow>
             if u = CHR ''_'' \<and> is_digit d
             then (let (ds, r) = digitpart (d # cs') in (digit_value c # ds, r))
             else (let (ds, r) = digitpart cs in (digit_value c # ds, r))
         | _ \<Rightarrow> (let (ds, r) = digitpart cs in (digit_value c # ds, r)))
      else ([], c # cs))"

definition decimal :: "int list \<Rightarrow> int" where
  "decimal ds = foldl (\<lambda>a d. 10 * a + d) 0 ds"

text \<open>An optional sign: whether it is a minus, and the rest.\<close>

definition parse_sign :: "string \<Rightarrow> bool \<times> string" where
  "parse_sign s =
     (case s of
        [] \<Rightarrow> (False, [])
      | c # cs \<Rightarrow> if c = CHR ''-'' then (True, cs)
                  else if c = CHR ''+'' then (False, cs)
                  else (False, s))"

text \<open>
  The number: digits before and after the point, at least one digit in all, and the rest.
\<close>

definition parse_number :: "string \<Rightarrow> (int list \<times> int list \<times> string) option" where
  "parse_number s =
     (let (ip, r1) = digitpart s
      in case r1 of
           [] \<Rightarrow> if ip = [] then None else Some (ip, [], r1)
         | c # r2 \<Rightarrow>
             if c = CHR ''.'' then
               (let (fp, r3) = digitpart r2
                in if ip = [] \<and> fp = [] then None else Some (ip, fp, r3))
             else if ip = [] then None else Some (ip, [], r1))"

text \<open>The exponent, which must end the string: absent, or \<open>e\<close>, a sign and digits.\<close>

definition parse_exponent :: "string \<Rightarrow> int option" where
  "parse_exponent r =
     (case r of
        [] \<Rightarrow> Some 0
      | c # r1 \<Rightarrow>
          if c = CHR ''e'' \<or> c = CHR ''E'' then
            (let (neg, r2) = parse_sign r1; (ds, r3) = digitpart r2
             in if ds = [] \<or> r3 \<noteq> [] then None
                else Some (if neg then - decimal ds else decimal ds))
          else None)"

definition py_float :: "string \<Rightarrow> pyfloat option" where
  "py_float s =
     (let (neg, body) = parse_sign (float_strip s)
      in case parse_number body of
           Some (ip, fp, r) \<Rightarrow>
             (case parse_exponent r of
                None \<Rightarrow> None
              | Some e \<Rightarrow>
                  (let x = of_int (decimal (ip @ fp)) * pow_int 10 (e - int (length fp))
                   in Some (binary64 (if neg then - x else x))))
         | None \<Rightarrow>
             (let w = map to_lower body
              in if w = ''inf'' \<or> w = ''infinity'' then Some (if neg then NegInf else PosInf)
                 else if w = ''nan'' then Some NaN
                 else None))"

section \<open>Strings in order\<close>

text \<open>
  \<open>a < b\<close> and \<open>a > b\<close> on strings: the first position where the strings differ decides,
  by code point; a proper prefix is the smaller string.
\<close>

fun str_lt :: "string \<Rightarrow> string \<Rightarrow> bool" where
  "str_lt [] [] = False"
| "str_lt [] (y # ys) = True"
| "str_lt (x # xs) [] = False"
| "str_lt (x # xs) (y # ys) = (if x = y then str_lt xs ys else ord x < ord y)"

fun str_gt :: "string \<Rightarrow> string \<Rightarrow> bool" where
  "str_gt [] [] = False"
| "str_gt [] (y # ys) = False"
| "str_gt (x # xs) [] = True"
| "str_gt (x # xs) (y # ys) = (if x = y then str_gt xs ys else ord x > ord y)"

section \<open>Table\<close>

text \<open>
  A cell of a row is the text of a field, or \<open>None\<close>: the value that \<open>csv.DictReader\<close>
  binds to the headers for which a line has no field.

  A row is the dictionary that \<open>csv.DictReader\<close> builds: its string keys with their
  cells, and under the key \<open>None\<close> (the reader's \<open>restkey\<close>) the fields of a line beyond
  the headers, when there are any.
\<close>

datatype cell = Text string | PyNone

record row =
  cells :: "string \<rightharpoonup> cell"
  restkey :: "string list option"

text \<open>\<open>str(value)\<close> of a cell.\<close>

fun py_str :: "cell \<Rightarrow> string" where
  "py_str (Text s) = s"
| "py_str PyNone = ''None''"

text \<open>
  \<open>float(value)\<close> of a cell: \<open>ValueError\<close> for a text that is no number, \<open>TypeError\<close> for
  \<open>None\<close>.
\<close>

datatype float_error = FloatValueError | FloatTypeError

fun float_of_cell :: "cell \<Rightarrow> float_error + pyfloat" where
  "float_of_cell (Text s) = (case py_float s of None \<Rightarrow> Inl FloatValueError | Some x \<Rightarrow> Inr x)"
| "float_of_cell PyNone = Inl FloatTypeError"

section \<open>Filter evaluator\<close>

text \<open>\<open>EqualsOperator.apply\<close>\<close>

definition equals_apply :: "cell \<Rightarrow> string \<Rightarrow> bool" where
  "equals_apply v target = (strip (py_str v) = strip target)"

text \<open>
  \<open>GreaterThanOperator.apply\<close>: \<open>float(value)\<close> is evaluated first, then \<open>float(target)\<close>;
  either exception is caught and the strings are compared.
\<close>

definition greater_than_apply :: "cell \<Rightarrow> string \<Rightarrow> bool" where
  "greater_than_apply v target =
     (case float_of_cell v of
        Inl e \<Rightarrow> str_gt (py_str v) target
      | Inr a \<Rightarrow>
          (case float_of_cell (Text target) of
             Inl e \<Rightarrow> str_gt (py_str v) target
           | Inr b \<Rightarrow> float_gt a b))"

text \<open>\<open>LessThanOperator.apply\<close>\<close>

definition less_than_apply :: "cell \<Rightarrow> string \<Rightarrow> bool" where
  "less_than_apply v target =
     (case float_of_cell v of
        Inl e \<Rightarrow> str_lt (py_str v) target
      | Inr a \<Rightarrow>
          (case float_of_cell (Text target) of
             Inl e \<Rightarrow> str_lt (py_str v) target
           | Inr b \<Rightarrow> float_lt a b))"

text \<open>The dictionary \<open>self.filter_operators\<close>.\<close>

definition filter_operators :: "string \<rightharpoonup> (cell \<Rightarrow> string \<Rightarrow> bool)" where
  "filter_operators = map_of
     [(''eq'', equals_apply), (''gt'', greater_than_apply), (''lt'', less_than_apply)]"

text \<open>
  The \<open>for row in data\<close> loop of \<open>filter_data\<close>; \<open>filtered_data\<close> is the list built so far.
\<close>

fun filter_loop ::
  "(cell \<Rightarrow> string \<Rightarrow> bool) \<Rightarrow> row list \<Rightarrow> string \<Rightarrow> string \<Rightarrow> row list \<Rightarrow> error + row list"
where
  "filter_loop filter_op [] column val filtered_data = Inr filtered_data"
| "filter_loop filter_op (r # rs) column val filtered_data =
     (case cells r column of
        None \<Rightarrow> Inl (ColumnNotFound column)
      | Some v \<Rightarrow>
          filter_loop filter_op rs column val
            (if filter_op v val then filtered_data @ [r] else filtered_data))"

definition filter_data :: "row list \<Rightarrow> string \<Rightarrow> string \<Rightarrow> string \<Rightarrow> error + row list" where
  "filter_data data column operator val =
     (case filter_operators operator of
        None \<Rightarrow> Inl (UnsupportedOperator operator)
      | Some filter_op \<Rightarrow> filter_loop filter_op data column val [])"

section \<open>Aggregator\<close>

text \<open>The result of an aggregation is an \<open>int\<close> or a \<open>float\<close>.\<close>

datatype pynum = PyInt int | PyFloat pyfloat

text \<open>The conversion of an \<open>int\<close> to a \<open>float\<close>, which fails when the integer is too large.\<close>

definition int_to_float :: "int \<Rightarrow> error + pyfloat" where
  "int_to_float n =
     (case binary64 (of_int n) of
        Finite d \<Rightarrow> Inr (Finite d)
      | _ \<Rightarrow> Inl OverflowError)"

text \<open>The division \<open>a / b\<close> of floats.\<close>

fun float_truediv :: "pyfloat \<Rightarrow> pyfloat \<Rightarrow> error + pyfloat" where
  "float_truediv a (Finite b) =
     (if b = 0 then Inl ZeroDivisionError
      else case a of
             Finite x \<Rightarrow> Inr (binary64 (x / b))
           | PosInf \<Rightarrow> Inr (if 0 < b then PosInf else NegInf)
           | NegInf \<Rightarrow> Inr (if 0 < b then NegInf else PosInf)
           | NaN \<Rightarrow> Inr NaN)"
| "float_truediv (Finite x) PosInf = Inr (Finite 0)"
| "float_truediv (Finite x) NegInf = Inr (Finite 0)"
| "float_truediv a b = Inr NaN"

text \<open>
  \<open>sum(values)\<close> for a list of floats: the floats are added from the left to the start
  value 0, each sum rounded. (Interpreters from version 3.12 on carry a correction term
  along the partial sums; nothing proved below depends on the value of a sum.)
\<close>

definition py_sum :: "pyfloat list \<Rightarrow> pyfloat" where
  "py_sum values = foldl float_add (Finite 0) values"

text \<open>
  \<open>min\<close> and \<open>max\<close> of a non-empty list, its head and tail given: a later element replaces
  the current one when it is smaller (larger).
\<close>

definition py_min :: "pyfloat \<Rightarrow> pyfloat list \<Rightarrow> pyfloat" where
  "py_min x xs = foldl (\<lambda>m y. if float_lt y m then y else m) x xs"

definition py_max :: "pyfloat \<Rightarrow> pyfloat list \<Rightarrow> pyfloat" where
  "py_max x xs = foldl (\<lambda>m y. if float_gt y m then y else m) x xs"

text \<open>\<open>AverageAggregation.calculate\<close>\<close>

definition average_calculate :: "pyfloat list \<Rightarrow> error + pynum" where
  "average_calculate values =
     (if values = [] then Inr (PyFloat (Finite 0))
      else case int_to_float (int (length values)) of
             Inl e \<Rightarrow> Inl e
           | Inr n \<Rightarrow>
               (case float_truediv (py_sum values) n of
                  Inl e \<Rightarrow> Inl e
                | Inr q \<Rightarrow> Inr (PyFloat q)))"

text \<open>\<open>MinAggregation.calculate\<close>\<close>

definition min_calculate :: "pyfloat list \<Rightarrow> error + pynum" where
  "min_calculate values =
     (case values of
        [] \<Rightarrow> Inr (PyInt 0)
      | x # xs \<Rightarrow> Inr (PyFloat (py_min x xs)))"

text \<open>\<open>MaxAggregation.calculate\<close>\<close>

definition max_calculate :: "pyfloat list \<Rightarrow> error + pynum" where
  "max_calculate values =
     (case values of
        [] \<Rightarrow> Inr (PyInt 0)
      | x # xs \<Rightarrow> Inr (PyFloat (py_max x xs)))"

text \<open>The dictionary \<open>self.aggregation_functions\<close>.\<close>

definition aggregation_functions :: "string \<rightharpoonup> (pyfloat list \<Rightarrow> error + pynum)" where
  "aggregation_functions = map_of
     [(''avg'', average_calculate), (''min'', min_calculate), (''max'', max_calculate)]"

text \<open>
  The \<open>for row in data\<close> loop of \<open>aggregate_data\<close>; \<open>values\<close> is the list built so far. The
  \<open>try\<close> catches \<open>ValueError\<close> only: a row without the column raises \<open>KeyError\<close> and a
  cell that is \<open>None\<close> raises \<open>TypeError\<close>.
\<close>

fun extract_values :: "row list \<Rightarrow> string \<Rightarrow> pyfloat list \<Rightarrow> error + pyfloat list" where
  "extract_values [] column values = Inr values"
| "extract_values (r # rs) column values =
     (case cells r column of
        None \<Rightarrow> Inl (KeyError column)
      | Some v \<Rightarrow>
          (case float_of_cell v of
             Inr x \<Rightarrow> extract_values rs column (values @ [x])
           | Inl FloatValueError \<Rightarrow> Inl (NonNumericValue column (py_str v))
           | Inl FloatTypeError \<Rightarrow> Inl TypeError))"

definition aggregate_data :: "row list \<Rightarrow> string \<Rightarrow> string \<Rightarrow> error + pynum" where
  "aggregate_data data column function =
     (case aggregation_functions function of
        None \<Rightarrow> Inl (UnsupportedFunction function)
      | Some agg_func \<Rightarrow>
          (case data of
             [] \<Rightarrow> Inr (PyInt 0)
           | first # others \<Rightarrow>
               (case cells first column of
                  None \<Rightarrow> Inl (ColumnNotFound column)
                | Some c \<Rightarrow>
                    (case extract_values data column [] of
                       Inl e \<Rightarrow> Inl e
                     | Inr values \<Rightarrow> agg_func values))))"

section \<open>Table reader\<close>

text \<open>
  What opening a path and reading it with \<open>csv.reader\<close> gives: no such file, another
  failure (with its message), or the records of the file, each the list of its fields.
  A blank line is the record without fields.
\<close>

datatype csv_file = NoSuchFile | Unreadable string | Records "string list list"

text \<open>
  The dictionary that \<open>csv.DictReader\<close> builds from a record (\<open>DictReader.__next__\<close> of
  the standard library, with \<open>restkey\<close> and \<open>restval\<close> at their default \<open>None\<close>):
  \<open>dict(zip(fieldnames, row))\<close>, then the surplus fields under \<open>restkey\<close>, or \<open>restval\<close>
  for the headers without a field.
\<close>

definition make_row :: "string list \<Rightarrow> string list \<Rightarrow> row" where
  "make_row fieldnames r =
     (let d = fold (\<lambda>(k, v) m. m(k \<mapsto> Text v)) (zip fieldnames r) Map.empty;
          lf = length fieldnames;
          lr = length r
      in if lf < lr then \<lparr>cells = d, restkey = Some (drop lf r)\<rparr>
         else if lr < lf then
           \<lparr>cells = fold (\<lambda>k m. m(k \<mapsto> PyNone)) (drop lr fieldnames) d, restkey = None\<rparr>
         else \<lparr>cells = d, restkey = None\<rparr>)"

text \<open>
  \<open>csv.DictReader\<close> over the records of a file: the first record is \<open>fieldnames\<close> (\<open>None\<close>
  when there is no record), and every later record that is not blank gives a row.
\<close>

definition dict_reader :: "string list list \<Rightarrow> string list option \<times> row list" where
  "dict_reader records =
     (case records of
        [] \<Rightarrow> (None, [])
      | fieldnames # lines \<Rightarrow>
          (Some fieldnames, map (make_row fieldnames) (filter (\<lambda>r. r \<noteq> []) lines)))"

text \<open>\<open>CSVProcessor.read_csv\<close>, on a file system \<open>fs\<close>.\<close>

definition read_csv :: "(string \<Rightarrow> csv_file) \<Rightarrow> string \<Rightarrow> error + (string list \<times> row list)" where
  "read_csv fs filepath =
     (case fs filepath of
        NoSuchFile \<Rightarrow> Inl (NotFound filepath)
      | Unreadable e \<Rightarrow> Inl (ReadError e)
      | Records records \<Rightarrow>
          (let (fieldnames, data) = dict_reader records;
               headers = (case fieldnames of None \<Rightarrow> [] | Some f \<Rightarrow> f)
           in Inr (headers, data)))"

text \<open>A file system with one file, of a header line and a line with fewer fields.\<close>

definition ragged_fs :: "string \<Rightarrow> csv_file" where
  "ragged_fs path =
     (if path = ''ragged.csv'' then Records [[''name'', ''price''], [''pen'']] else NoSuchFile)"

text \<open>
  Three rows, of which the second has no \<open>price\<close> and the third a \<open>price\<close> that is no
  number.
\<close>

definition uneven_data :: "row list" where
  "uneven_data =
     [\<lparr>cells = map_of [(''price'', Text ''1'')], restkey = None\<rparr>,
      \<lparr>cells = map_of [(''name'', Text ''pen'')], restkey = None\<rparr>,
      \<lparr>cells = map_of [(''price'', Text ''abc'')], restkey = None\<rparr>]"

text \<open>
  A file whose second data line has no \<open>price\<close> field and whose third has a \<open>price\<close> that is
  no number.
\<close>

definition short_line_fs :: "string \<Rightarrow> csv_file" where
  "short_line_fs path =
     (if path = ''short.csv''
      then Records [[''name'', ''price''], [''pen'', ''1''], [''ink''], [''cap'', ''abc'']]
      else NoSuchFile)"

text \<open>Whether the cell of a row in a column is a text that \<open>float\<close> accepts.\<close>

definition numeric_cell :: "string \<Rightarrow> row \<Rightarrow> bool" where
  "numeric_cell column r =
     (case cells r column of
        Some (Text s) \<Rightarrow> py_float s \<noteq> None
      | _ \<Rightarrow> False)"

text \<open>Whether a row has a cell in a column that satisfies a predicate against a target.\<close>

definition keeps :: "(cell \<Rightarrow> string \<Rightarrow> bool) \<Rightarrow> string \<Rightarrow> string \<Rightarrow> row \<Rightarrow> bool" where
  "keeps p column val r = (case cells r column of Some v \<Rightarrow> p v val | None \<Rightarrow> False)"

section \<open>Substrings and splitting\<close>

lemma is_prefix_append: "is_prefix p s \<longleftrightarrow> (\<exists>t. s = p @ t)"
  by (induction p s rule: is_prefix.induct) auto

lemma split_first_None_iff: "split_first sep s = None \<longleftrightarrow> \<not> py_in sep s"
  by (induction s) (auto split: if_splits)

lemma py_in_split_first: "py_in sep s \<Longrightarrow> \<exists>a b. split_first sep s = Some (a, b)"
  using split_first_None_iff [of sep s] by (cases "split_first sep s") auto

text \<open>The two parts of a split, with the separator between them, are the string.\<close>

lemma split_first_decomp: "split_first sep s = Some (a, b) \<Longrightarrow> s = a @ sep @ b"
proof (induction s arbitrary: a)
  case Nil
  then show ?case by (auto split: if_splits)
next
  case (Cons c cs)
  show ?case
  proof (cases "is_prefix sep (c # cs)")
    case True
    then obtain t where t: "c # cs = sep @ t" by (auto simp: is_prefix_append)
    from True Cons.prems have "a = []" "b = drop (length sep) (c # cs)" by auto
    with t show ?thesis by simp
  next
    case False
    with Cons.prems obtain a' where "split_first sep cs = Some (a', b)" "a = c # a'"
      by auto
    with Cons.IH show ?thesis by auto
  qed
qed

lemma py_in_single: "py_in [x] s \<longleftrightarrow> x \<in> set s"
  by (induction s) auto

lemma split_first_single:
  "x \<in> set s \<Longrightarrow>
     split_first [x] s = Some (takeWhile (\<lambda>c. c \<noteq> x) s, tl (dropWhile (\<lambda>c. c \<noteq> x) s))"
  by (induction s) auto

lemma py_in_iff: "py_in sub s \<longleftrightarrow> (\<exists>a b. s = a @ sub @ b)"
proof (induction s)
  case Nil
  then show ?case by auto
next
  case (Cons c cs)
  show ?case
  proof
    assume "py_in sub (c # cs)"
    then consider "is_prefix sub (c # cs)" | "py_in sub cs" by auto
    then show "\<exists>a b. c # cs = a @ sub @ b"
    proof cases
      case 1
      then obtain t where "c # cs = [] @ sub @ t" by (auto simp: is_prefix_append)
      then show ?thesis by blast
    next
      case 2
      with Cons.IH obtain a b where "cs = a @ sub @ b" by blast
      then have "c # cs = (c # a) @ sub @ b" by simp
      then show ?thesis by blast
    qed
  next
    assume "\<exists>a b. c # cs = a @ sub @ b"
    then obtain a b where ab: "c # cs = a @ sub @ b" by blast
    show "py_in sub (c # cs)"
    proof (cases a)
      case Nil
      with ab have "is_prefix sub (c # cs)" by (auto simp: is_prefix_append)
      then show ?thesis by simp
    next
      case (Cons x a')
      with ab have "cs = a' @ sub @ b" by simp
      with Cons.IH have "py_in sub cs" by blast
      then show ?thesis by simp
    qed
  qed
qed

text \<open>A string that contains \<open>!=\<close> contains \<open>=\<close>.\<close>

lemma py_in_ne_eq: "py_in ''!='' c \<Longrightarrow> py_in ''='' c"
proof -
  assume "py_in ''!='' c"
  then obtain a b where "c = a @ ''!='' @ b" by (auto simp: py_in_iff)
  then have "CHR ''='' \<in> set c" by simp
  then show ?thesis by (simp add: py_in_single)
qed

section \<open>The filter-condition parser\<close>

lemma parse_filter_loop_hit:
  assumes "py_in op c" and "op \<noteq> []" and "op_mapping op = Some tag"
  shows "\<exists>a b. split_first op c = Some (a, b)
           \<and> parse_filter_loop (op # ops) c = Inr (strip a, tag, strip b)"
proof -
  from assms(1) obtain a b where ab: "split_first op c = Some (a, b)"
    using py_in_split_first by blast
  with assms show ?thesis by (simp add: py_split1_def)
qed

lemma parse_filter_loop_find_None:
  "find (\<lambda>op. py_in op c) ops = None \<Longrightarrow>
     parse_filter_loop ops c = Inl (InvalidFormat ''filter'' c)"
  by (induction ops) (auto split: if_splits)

lemma parse_filter_loop_find_Some:
  assumes "find (\<lambda>op. py_in op c) ops = Some op"
    and "\<forall>op\<in>set ops. op \<noteq> [] \<and> op_mapping op \<noteq> None"
  shows "\<exists>a b tag. split_first op c = Some (a, b) \<and> op_mapping op = Some tag
           \<and> parse_filter_loop ops c = Inr (strip a, tag, strip b)"
  using assms
proof (induction ops)
  case Nil
  then show ?case by simp
next
  case (Cons x xs)
  show ?case
  proof (cases "py_in x c")
    case True
    with Cons.prems have "op = x" by simp
    moreover from Cons.prems obtain tag where "x \<noteq> []" "op_mapping x = Some tag" by auto
    ultimately show ?thesis using parse_filter_loop_hit [OF True, of tag xs] by auto
  next
    case False
    with Cons.prems have "find (\<lambda>op. py_in op c) xs = Some op" by simp
    moreover from Cons.prems have "\<forall>op\<in>set xs. op \<noteq> [] \<and> op_mapping op \<noteq> None" by simp
    ultimately show ?thesis using Cons.IH False by simp
  qed
qed

lemma operators_mapped: "\<forall>op\<in>set operators. op \<noteq> [] \<and> op_mapping op \<noteq> None"
  by (simp add: operators_def op_mapping_def)

text \<open>
  No condition string is parsed to the tag \<open>ne\<close>: a string that contains \<open>!=\<close> contains \<open>=\<close>,
  which the loop tries first.
\<close>

lemma parse_filter_condition_never_ne: "parse_filter_condition c \<noteq> Inr (col, ''ne'', v)"
proof
  assume ne: "parse_filter_condition c = Inr (col, ''ne'', v)"
  show False
  proof (cases "find (\<lambda>op. py_in op c) operators")
    case None
    with ne show False
      by (simp add: parse_filter_condition_def parse_filter_loop_find_None)
  next
    case (Some op)
    then obtain a b tag where t: "op_mapping op = Some tag"
      and r: "parse_filter_condition c = Inr (strip a, tag, strip b)"
      unfolding parse_filter_condition_def
      using parse_filter_loop_find_Some [OF _ operators_mapped] by blast
    from r ne have "tag = ''ne''" by simp
    moreover from Some have "op \<in> set operators" by (auto simp: find_Some_iff)
    ultimately have "op = ''!=''" using t by (auto simp: operators_def op_mapping_def)
    with Some have "py_in ''!='' c" "\<not> py_in ''='' c"
      by (auto simp: operators_def split: if_splits)
    then show False using py_in_ne_eq by blast
  qed
qed

text \<open>
  C1. The claim: for some condition string that contains \<open>!=\<close>, the parser returns the
  operator tag \<open>ne\<close>. The code tries \<open>=\<close> before \<open>!=\<close>, so that \<open>price!=500\<close> is split at
  its \<open>=\<close>: the column is \<open>price!\<close> and the tag is \<open>eq\<close>.
\<close>

theorem parse_filter_condition_ne_token:
  "parse_filter_condition ''price!=500'' = Inr (''price!'', ''eq'', ''500'')"
  by (simp add: parse_filter_condition_def operators_def op_mapping_def py_split1_def
      strip_def isspace_def ord_def)

text \<open>
  C2, as claimed: when a token occurs and the text before or after it trims to the empty
  string, the parser fails with \<open>InvalidFormat\<close>. It does not: \<open>=5\<close> is parsed, to an
  empty column.
\<close>

theorem parse_filter_condition_empty_column:
  "py_in ''='' ''=5''
   \<and> split_first ''='' ''=5'' = Some ([], ''5'')
   \<and> strip [] = []
   \<and> parse_filter_condition ''=5'' = Inr ([], ''eq'', ''5'')
   \<and> parse_filter_condition ''=5'' \<noteq> Inl (InvalidFormat ''filter'' ''=5'')"
  by (simp add: parse_filter_condition_def operators_def op_mapping_def py_split1_def
      strip_def isspace_def ord_def)

text \<open>
  C2, amended: when some token occurs in the condition string, the parser succeeds. With
  \<open>op\<close> the first token of the priority list that occurs, it returns the trimmed text
  before the first occurrence of \<open>op\<close>, the tag of \<open>op\<close>, and the trimmed text after it,
  whether or not a trimmed text is empty. It fails with \<open>InvalidFormat\<close> only when no
  token occurs.
\<close>

theorem parse_filter_condition_first_token:
  "(find (\<lambda>op. py_in op c) operators = Some op \<longrightarrow>
      (\<exists>a b tag. split_first op c = Some (a, b) \<and> op_mapping op = Some tag
         \<and> parse_filter_condition c = Inr (strip a, tag, strip b)))
   \<and> (find (\<lambda>op. py_in op c) operators = None \<longrightarrow>
      parse_filter_condition c = Inl (InvalidFormat ''filter'' c))"
  unfolding parse_filter_condition_def
  using parse_filter_loop_find_Some [OF _ operators_mapped] parse_filter_loop_find_None
  by blast

theorem parse_filter_condition_first_token_witness:
  "find (\<lambda>op. py_in op ''price>='') operators = Some ''>=''
   \<and> parse_filter_condition ''price>='' = Inr (''price'', ''gte'', [])
   \<and> find (\<lambda>op. py_in op ''price'') operators = None
   \<and> parse_filter_condition ''price'' = Inl (InvalidFormat ''filter'' ''price'')"
proof -
  have h: "find (\<lambda>op. py_in op ''price>='') operators = Some ''>=''"
    by (simp add: operators_def)
  have n: "find (\<lambda>op. py_in op ''price'') operators = None"
    by (simp add: operators_def)
  show ?thesis
    using h n parse_filter_condition_first_token [of "''price>=''" "''>=''"]
      parse_filter_condition_first_token [of "''price''" "''>=''"]
    by (auto simp: op_mapping_def strip_def isspace_def ord_def)
qed

section \<open>The aggregation-condition parser\<close>

text \<open>
  C9. A condition string that contains \<open>=\<close> is parsed to the trimmed text before its first
  \<open>=\<close> and the trimmed text after it, in which any further \<open>=\<close> stays; the parser fails
  with \<open>InvalidFormat\<close> exactly when the string contains no \<open>=\<close>.
\<close>

theorem parse_aggregation_condition_first_eq:
  "(CHR ''='' \<in> set c \<longrightarrow>
      parse_aggregation_condition c =
        Inr (strip (takeWhile (\<lambda>x. x \<noteq> CHR ''='') c),
             strip (tl (dropWhile (\<lambda>x. x \<noteq> CHR ''='') c))))
   \<and> (CHR ''='' \<notin> set c \<longrightarrow>
      parse_aggregation_condition c = Inl (InvalidFormat ''aggregation'' c))"
  by (simp add: parse_aggregation_condition_def py_in_single py_split1_def split_first_single)

theorem parse_aggregation_condition_first_eq_witness:
  "CHR ''='' \<in> set '' avg = price=x ''
   \<and> parse_aggregation_condition '' avg = price=x '' = Inr (''avg'', ''price=x'')
   \<and> CHR ''='' \<notin> set ''avg price''
   \<and> parse_aggregation_condition ''avg price'' = Inl (InvalidFormat ''aggregation'' ''avg price'')"
  using parse_aggregation_condition_first_eq [of "'' avg = price=x ''"]
    parse_aggregation_condition_first_eq [of "''avg price''"]
  by (simp add: strip_def isspace_def ord_def)

section \<open>The filter evaluator\<close>

text \<open>The two string comparisons mirror each other, and so do the two float comparisons.\<close>

lemma str_gt_lt: "str_gt a b = str_lt b a"
  by (induction a b rule: str_gt.induct) auto

lemma float_gt_lt: "float_gt a b = float_lt b a"
  by (cases a; cases b) auto

text \<open>
  \<open>str_lt\<close> and \<open>str_gt\<close> are the lexicographic order of the code points, in which a proper
  prefix comes first.
\<close>

lemma str_lt_code_points:
  "str_lt a b \<longleftrightarrow> (map of_char a, map of_char b) \<in> lexord {(m :: nat, n). m < n}"
  by (induction a b rule: str_lt.induct) (auto simp: ord_def)

lemma str_gt_code_points:
  "str_gt a b \<longleftrightarrow> (map of_char b, map of_char a) \<in> lexord {(m :: nat, n). m < n}"
  by (simp add: str_gt_lt str_lt_code_points)

lemma py_float_banana: "py_float ''banana'' = None"
  by code_simp

lemma py_float_10: "py_float ''10'' = Some (Finite 10)"
  by code_simp

lemma py_float_5: "py_float ''5'' = Some (Finite 5)"
  by code_simp

lemma py_float_1: "py_float ''1'' = Some (Finite 1)"
  by code_simp

lemma py_float_abc: "py_float ''abc'' = None"
  by code_simp

lemma py_float_10_5: "py_float ''10.5'' = Some (Finite (21 / 2))"
  by code_simp

lemma py_float_9_5: "py_float ''9.5'' = Some (Finite (19 / 2))"
  by code_simp

lemma py_float_inf: "py_float ''inf'' = Some PosInf"
  by code_simp

lemma py_float_nan: "py_float ''nan'' = Some NaN"
  by code_simp

lemma py_float_apple: "py_float ''apple'' = None"
  by code_simp

text \<open>
  C7. On two strings, \<open>GreaterThanOperator.apply\<close> and \<open>LessThanOperator.apply\<close> compare the
  two floats when both strings parse: two finite values as the numbers they are, an
  infinity above (below) every other value, and nothing with a NaN. When a string does
  not parse, they compare the two strings as they are, in the lexicographic order of
  their code points. And \<open>banana\<close> is greater than \<open>apple\<close>.
\<close>

theorem greater_less_than_apply_cases:
  "(py_float v = None \<or> py_float t = None \<longrightarrow>
      greater_than_apply (Text v) t
        = ((map of_char t, map of_char v) \<in> lexord {(m :: nat, n). m < n})
      \<and> less_than_apply (Text v) t
        = ((map of_char v, map of_char t) \<in> lexord {(m :: nat, n). m < n}))
   \<and> (py_float v = Some (Finite x) \<and> py_float t = Some (Finite y) \<longrightarrow>
      greater_than_apply (Text v) t = (y < x) \<and> less_than_apply (Text v) t = (x < y))
   \<and> (py_float v = Some a \<and> py_float t = Some b \<and> (a = NaN \<or> b = NaN) \<longrightarrow>
      \<not> greater_than_apply (Text v) t \<and> \<not> less_than_apply (Text v) t)
   \<and> (py_float v = Some PosInf \<and> py_float t = Some b \<and> b \<noteq> NaN \<longrightarrow>
      greater_than_apply (Text v) t = (b \<noteq> PosInf) \<and> \<not> less_than_apply (Text v) t)
   \<and> (py_float v = Some NegInf \<and> py_float t = Some b \<and> b \<noteq> NaN \<longrightarrow>
      \<not> greater_than_apply (Text v) t \<and> less_than_apply (Text v) t = (b \<noteq> NegInf))
   \<and> (py_float v = Some (Finite x) \<and> py_float t = Some PosInf \<longrightarrow>
      \<not> greater_than_apply (Text v) t \<and> less_than_apply (Text v) t)
   \<and> (py_float v = Some (Finite x) \<and> py_float t = Some NegInf \<longrightarrow>
      greater_than_apply (Text v) t \<and> \<not> less_than_apply (Text v) t)
   \<and> greater_than_apply (Text ''banana'') ''apple'' = True"
proof -
  have fallback: "greater_than_apply (Text v) t
        = ((map of_char t, map of_char v) \<in> lexord {(m :: nat, n). m < n})
      \<and> less_than_apply (Text v) t
        = ((map of_char v, map of_char t) \<in> lexord {(m :: nat, n). m < n})"
    if "py_float v = None \<or> py_float t = None"
    using that
    by (auto simp: greater_than_apply_def less_than_apply_def str_gt_code_points
        str_lt_code_points split: option.splits)
  have numeric: "greater_than_apply (Text v) t = float_gt a b
      \<and> less_than_apply (Text v) t = float_lt a b"
    if "py_float v = Some a" "py_float t = Some b" for a b
    using that by (simp add: greater_than_apply_def less_than_apply_def)
  have banana: "greater_than_apply (Text ''banana'') ''apple'' = True"
    by (simp add: greater_than_apply_def py_float_banana ord_def)
  have nan: "\<not> float_gt a b \<and> \<not> float_lt a b" if "a = NaN \<or> b = NaN"
    using that by (cases a; cases b) auto
  have pinf: "float_gt PosInf b = (b \<noteq> PosInf) \<and> \<not> float_lt PosInf b" if "b \<noteq> NaN"
    using that by (cases b) auto
  have ninf: "\<not> float_gt NegInf b \<and> float_lt NegInf b = (b \<noteq> NegInf)" if "b \<noteq> NaN"
    using that by (cases b) auto
  show ?thesis
    using fallback numeric [of "Finite x" "Finite y"] numeric [of a b] nan
      numeric [of PosInf b] pinf numeric [of NegInf b] ninf
      numeric [of "Finite x" PosInf] numeric [of "Finite x" NegInf] banana
    by (intro conjI impI) auto
qed

theorem greater_less_than_apply_cases_witness:
  "py_float ''5'' = Some (Finite 5) \<and> py_float ''10'' = Some (Finite 10)
   \<and> greater_than_apply (Text ''10'') ''5'' = True
   \<and> less_than_apply (Text ''10'') ''5'' = False
   \<and> greater_than_apply (Text ''5'') ''10'' = False
   \<and> less_than_apply (Text ''5'') ''10'' = True
   \<and> py_float ''10.5'' = Some (Finite (21 / 2)) \<and> py_float ''9.5'' = Some (Finite (19 / 2))
   \<and> greater_than_apply (Text ''10.5'') ''10'' = True
   \<and> less_than_apply (Text ''9.5'') ''10'' = True
   \<and> greater_than_apply (Text ''9.5'') ''10'' = False
   \<and> py_float ''apple'' = None \<and> py_float ''banana'' = None
   \<and> less_than_apply (Text ''apple'') ''banana'' = True
   \<and> greater_than_apply (Text ''apple'') ''banana'' = False
   \<and> less_than_apply (Text ''banana'') ''apple'' = False
   \<and> less_than_apply (Text ''10'') ''banana'' = True
   \<and> greater_than_apply (Text ''10'') ''banana'' = False
   \<and> py_float ''inf'' = Some PosInf \<and> py_float ''nan'' = Some NaN
   \<and> greater_than_apply (Text ''inf'') ''10'' = True
   \<and> less_than_apply (Text ''10'') ''inf'' = True
   \<and> less_than_apply (Text ''nan'') ''10'' = False
   \<and> greater_than_apply (Text ''nan'') ''10'' = False"
  using greater_less_than_apply_cases [of "''10''" "''5''" 10 5]
    greater_less_than_apply_cases [of "''5''" "''10''" 5 10]
    greater_less_than_apply_cases [of "''10.5''" "''10''" "21 / 2" 10]
    greater_less_than_apply_cases [of "''9.5''" "''10''" "19 / 2" 10]
    greater_less_than_apply_cases [of "''apple''" "''banana''"]
    greater_less_than_apply_cases [of "''banana''" "''apple''"]
    greater_less_than_apply_cases [of "''10''" "''banana''"]
    greater_less_than_apply_cases [of "''inf''" "''10''" _ _ _ "Finite 10"]
    greater_less_than_apply_cases [of "''10''" "''inf''" 10]
    greater_less_than_apply_cases [of "''nan''" "''10''" _ _ NaN "Finite 10"]
  by (simp add: py_float_10 py_float_5 py_float_10_5 py_float_9_5 py_float_apple
      py_float_banana py_float_inf py_float_nan)

text \<open>
  C10. \<open>GreaterThanOperator.apply(v, t)\<close> is \<open>LessThanOperator.apply(t, v)\<close>, for all strings.
\<close>

theorem greater_than_apply_dual: "greater_than_apply (Text v) t = less_than_apply (Text t) v"
  by (simp add: greater_than_apply_def less_than_apply_def str_gt_lt float_gt_lt
      split: option.splits)

theorem greater_than_apply_dual_witness:
  "greater_than_apply (Text ''5'') ''10'' = less_than_apply (Text ''10'') ''5''
   \<and> less_than_apply (Text ''10'') ''5'' = False
   \<and> greater_than_apply (Text ''abc'') ''5'' = less_than_apply (Text ''5'') ''abc''
   \<and> less_than_apply (Text ''5'') ''abc'' = True"
  using greater_than_apply_dual [of "''5''" "''10''"] greater_than_apply_dual [of "''abc''" "''5''"]
  by (simp add: less_than_apply_def py_float_10 py_float_5 py_float_abc ord_def)

section \<open>Filtering\<close>

text \<open>
  C6. For an operator tag other than \<open>eq\<close>, \<open>gt\<close> and \<open>lt\<close>, \<open>filter_data\<close> fails with
  \<open>UnsupportedOperator\<close>, whatever the rows, the column and the target.
\<close>

theorem filter_data_unsupported_operator:
  "operator \<notin> {''eq'', ''gt'', ''lt''} \<Longrightarrow>
     filter_data data column operator val = Inl (UnsupportedOperator operator)"
  by (simp add: filter_data_def filter_operators_def)

theorem filter_data_unsupported_operator_witness:
  "parse_filter_condition ''price>=500'' = Inr (''price'', ''gte'', ''500'')
   \<and> ''gte'' \<notin> {''eq'', ''gt'', ''lt''}
   \<and> filter_data uneven_data ''price'' ''gte'' ''500'' = Inl (UnsupportedOperator ''gte'')"
proof -
  have p: "parse_filter_condition ''price>=500'' = Inr (''price'', ''gte'', ''500'')"
    by (simp add: parse_filter_condition_def operators_def op_mapping_def py_split1_def
        strip_def isspace_def ord_def)
  have h: "''gte'' \<notin> {''eq'', ''gt'', ''lt''}" by simp
  show ?thesis
    using p h filter_data_unsupported_operator [OF h, of uneven_data "''price''" "''500''"]
    by simp
qed

lemma filter_loop_filter:
  "\<forall>r\<in>set data. cells r column \<noteq> None \<Longrightarrow>
     filter_loop p data column val acc = Inr (acc @ filter (keeps p column val) data)"
  by (induction data arbitrary: acc) (auto simp: keeps_def)

text \<open>
  C8. When every row has the column, \<open>filter_data\<close> with the tag \<open>eq\<close>, \<open>gt\<close> or \<open>lt\<close> returns
  the rows whose cell satisfies the predicate of the operator against the target, as
  they are and in the order of the input.
\<close>

theorem filter_data_keeps:
  assumes "\<forall>r\<in>set data. cells r column \<noteq> None"
  shows "filter_data data column ''eq'' val = Inr (filter (keeps equals_apply column val) data)
       \<and> filter_data data column ''gt'' val = Inr (filter (keeps greater_than_apply column val) data)
       \<and> filter_data data column ''lt'' val = Inr (filter (keeps less_than_apply column val) data)"
  using assms by (simp add: filter_data_def filter_operators_def filter_loop_filter)

theorem filter_data_keeps_witness:
  "filter_data uneven_data ''price'' ''eq'' ''1'' = Inl (ColumnNotFound ''price'')
   \<and> filter_data [uneven_data ! 0, uneven_data ! 2, uneven_data ! 0] ''price'' ''eq'' '' 1 ''
       = Inr [uneven_data ! 0, uneven_data ! 0]
   \<and> filter_data [uneven_data ! 0, uneven_data ! 2, uneven_data ! 0] ''price'' ''gt'' ''5''
       = Inr [uneven_data ! 2]
   \<and> filter_data [uneven_data ! 0, uneven_data ! 2, uneven_data ! 0] ''price'' ''lt'' ''5''
       = Inr [uneven_data ! 0, uneven_data ! 0]"
proof -
  have h: "\<forall>r\<in>set [uneven_data ! 0, uneven_data ! 2, uneven_data ! 0]. cells r ''price'' \<noteq> None"
    by (simp add: uneven_data_def)
  have c: "filter_data uneven_data ''price'' ''eq'' ''1'' = Inl (ColumnNotFound ''price'')"
    by (simp add: filter_data_def filter_operators_def uneven_data_def equals_apply_def
        strip_def isspace_def ord_def)
  show ?thesis
    using c filter_data_keeps [OF h, of "'' 1 ''"] filter_data_keeps [OF h, of "''5''"]
    by (simp add: uneven_data_def keeps_def equals_apply_def greater_than_apply_def
        less_than_apply_def py_float_1 py_float_5 py_float_abc strip_def isspace_def ord_def)
qed

section \<open>Aggregation\<close>

text \<open>
  C4. For each of the aggregation functions \<open>avg\<close>, \<open>min\<close> and \<open>max\<close> and every column,
  \<open>aggregate_data\<close> on no rows returns the integer 0: no column is looked up and no cell
  is converted.
\<close>

theorem aggregate_data_empty:
  "function \<in> {''avg'', ''min'', ''max''} \<Longrightarrow> aggregate_data [] column function = Inr (PyInt 0)"
  by (auto simp: aggregate_data_def aggregation_functions_def)

theorem aggregate_data_empty_witness:
  "''avg'' \<in> {''avg'', ''min'', ''max''} \<and> aggregate_data [] ''price'' ''avg'' = Inr (PyInt 0)"
proof -
  have h: "''avg'' \<in> {''avg'', ''min'', ''max''}" by simp
  show ?thesis using h aggregate_data_empty [OF h, of "''price''"] by simp
qed

text \<open>A tag that is no aggregation function is refused before the rows are looked at.\<close>

lemma aggregate_data_unsupported_function:
  "function \<notin> {''avg'', ''min'', ''max''} \<Longrightarrow>
     aggregate_data data column function = Inl (UnsupportedFunction function)"
  by (simp add: aggregate_data_def aggregation_functions_def)

lemma extract_values_abort:
  assumes "\<forall>q\<in>set pre. numeric_cell column q"
    and "cells r column = Some (Text s)" and "py_float s = None"
  shows "extract_values (pre @ r # post) column acc = Inl (NonNumericValue column s)"
  using assms
proof (induction pre arbitrary: acc)
  case Nil
  then show ?case by simp
next
  case (Cons q qs)
  from Cons.prems(1) obtain t x where "cells q column = Some (Text t)" "py_float t = Some x"
    by (auto simp: numeric_cell_def split: option.splits cell.splits)
  moreover have "extract_values (qs @ r # post) column (acc @ [x])
      = Inl (NonNumericValue column s)"
    using Cons.IH Cons.prems by simp
  ultimately show ?case by simp
qed

text \<open>
  C5, as claimed: when the first row has the column and the cell of some row fails the
  conversion, \<open>aggregate_data\<close> fails with \<open>NonNumericValue\<close>, naming the first such cell.
  It does not when an earlier row has no such column: the first row of \<open>uneven_data\<close> has
  a numeric \<open>price\<close> and the only \<open>price\<close> that is no number is \<open>abc\<close>, in the third row,
  but the second row has no \<open>price\<close> and the lookup raises \<open>KeyError\<close>.
\<close>

theorem aggregate_data_uneven_rows:
  "cells (uneven_data ! 0) ''price'' = Some (Text ''1'')
   \<and> py_float ''1'' = Some (Finite 1)
   \<and> cells (uneven_data ! 1) ''price'' = None
   \<and> cells (uneven_data ! 2) ''price'' = Some (Text ''abc'')
   \<and> py_float ''abc'' = None
   \<and> aggregate_data uneven_data ''price'' ''avg'' = Inl (KeyError ''price'')
   \<and> aggregate_data uneven_data ''price'' ''avg'' \<noteq> Inl (NonNumericValue ''price'' ''abc'')"
  by (simp add: uneven_data_def aggregate_data_def aggregation_functions_def
      py_float_1 py_float_abc)

text \<open>
  The same from a file: the line without a \<open>price\<close> field gives a row whose \<open>price\<close> is
  \<open>None\<close>, and its conversion raises \<open>TypeError\<close>.
\<close>

lemma aggregate_data_short_line:
  "read_csv short_line_fs ''short.csv'' =
     Inr ([''name'', ''price''],
          [make_row [''name'', ''price''] [''pen'', ''1''],
           make_row [''name'', ''price''] [''ink''],
           make_row [''name'', ''price''] [''cap'', ''abc'']])
   \<and> aggregate_data
         [make_row [''name'', ''price''] [''pen'', ''1''],
          make_row [''name'', ''price''] [''ink''],
          make_row [''name'', ''price''] [''cap'', ''abc'']] ''price'' ''avg''
       = Inl TypeError"
  by (simp add: read_csv_def short_line_fs_def dict_reader_def make_row_def
      aggregate_data_def aggregation_functions_def py_float_1)

text \<open>
  C5, amended: for the tags \<open>avg\<close>, \<open>min\<close> and \<open>max\<close>, when the cell of some row in the
  column is a text that fails the conversion and every row before it has in the column a
  text that converts, \<open>aggregate_data\<close> fails with \<open>NonNumericValue\<close>, naming the text of
  that cell, whatever rows follow; there is no partial result.
\<close>

theorem aggregate_data_non_numeric:
  assumes "function \<in> {''avg'', ''min'', ''max''}"
    and "\<forall>q\<in>set pre. numeric_cell column q"
    and "cells r column = Some (Text s)" and "py_float s = None"
  shows "aggregate_data (pre @ r # post) column function = Inl (NonNumericValue column s)"
proof -
  from assms(1) obtain f where f: "aggregation_functions function = Some f"
    by (auto simp: aggregation_functions_def)
  have x: "extract_values (pre @ r # post) column [] = Inl (NonNumericValue column s)"
    using assms(2-4) by (rule extract_values_abort)
  obtain first others where d: "pre @ r # post = first # others"
    by (cases "pre @ r # post") auto
  have "cells first column \<noteq> None"
  proof (cases pre)
    case Nil
    with d assms(3) show ?thesis by simp
  next
    case (Cons p ps)
    with d have "first \<in> set pre" by simp
    with assms(2) have "numeric_cell column first" by blast
    then show ?thesis by (auto simp: numeric_cell_def split: option.splits)
  qed
  then obtain c where c: "cells first column = Some c" by blast
  from x d have "extract_values (first # others) column [] = Inl (NonNumericValue column s)"
    by simp
  with f c d show ?thesis by (simp add: aggregate_data_def)
qed

theorem aggregate_data_non_numeric_witness:
  "''max'' \<in> {''avg'', ''min'', ''max''}
   \<and> numeric_cell ''price'' (uneven_data ! 0)
   \<and> cells (uneven_data ! 2) ''price'' = Some (Text ''abc'')
   \<and> py_float ''abc'' = None
   \<and> aggregate_data ([uneven_data ! 0] @ uneven_data ! 2 # [uneven_data ! 1]) ''price'' ''max''
       = Inl (NonNumericValue ''price'' ''abc'')"
proof -
  have f: "''max'' \<in> {''avg'', ''min'', ''max''}" by simp
  have n: "numeric_cell ''price'' (uneven_data ! 0)"
    by (simp add: numeric_cell_def uneven_data_def py_float_1)
  then have p: "\<forall>q\<in>set [uneven_data ! 0]. numeric_cell ''price'' q" by simp
  have c: "cells (uneven_data ! 2) ''price'' = Some (Text ''abc'')"
    by (simp add: uneven_data_def)
  show ?thesis
    using f n c py_float_abc
      aggregate_data_non_numeric [OF f p c py_float_abc, of "[uneven_data ! 1]"]
    by simp
qed

section \<open>Reading the table\<close>

lemma dom_fold_text:
  "dom (fold (\<lambda>(k, v) m. m(k \<mapsto> Text v)) kvs m) = dom m \<union> fst ` set kvs"
  by (induction kvs arbitrary: m) auto

lemma dom_fold_none: "dom (fold (\<lambda>k m. m(k \<mapsto> PyNone)) ks m) = dom m \<union> set ks"
  by (induction ks arbitrary: m) auto

lemma fold_none_value: "k \<in> set ks \<Longrightarrow> fold (\<lambda>k m. m(k \<mapsto> PyNone)) ks m k = Some PyNone"
  by (induction ks arbitrary: m rule: rev_induct) auto

lemma make_row_short:
  assumes "length r < length hdr"
  shows "dom (cells (make_row hdr r)) = set hdr"
    and "\<forall>h\<in>set (drop (length r) hdr). cells (make_row hdr r) h = Some PyNone"
proof -
  have "fst ` set (zip hdr r) = set (take (length r) hdr)"
    using assms by (metis less_imp_le_nat map_fst_zip_take min.absorb2 set_map)
  moreover have "set (take (length r) hdr) \<union> set (drop (length r) hdr) = set hdr"
    by (metis append_take_drop_id set_append)
  ultimately show "dom (cells (make_row hdr r)) = set hdr"
    using assms by (simp add: make_row_def Let_def dom_fold_none dom_fold_text)
  show "\<forall>h\<in>set (drop (length r) hdr). cells (make_row hdr r) h = Some PyNone"
    using assms by (simp add: make_row_def Let_def fold_none_value)
qed

text \<open>
  C3, as claimed: the headers for which a data line has no field are bound to the empty
  string. They are bound to \<open>None\<close>: the line \<open>pen\<close> under the headers \<open>name\<close>, \<open>price\<close>
  gives a row whose \<open>price\<close> is \<open>None\<close>.
\<close>

theorem read_csv_ragged_none:
  "read_csv ragged_fs ''ragged.csv'' =
     Inr ([''name'', ''price''], [make_row [''name'', ''price''] [''pen'']])
   \<and> cells (make_row [''name'', ''price''] [''pen'']) ''name'' = Some (Text ''pen'')
   \<and> cells (make_row [''name'', ''price''] [''pen'']) ''price'' = Some PyNone
   \<and> cells (make_row [''name'', ''price''] [''pen'']) ''price'' \<noteq> Some (Text [])"
  by (simp add: read_csv_def ragged_fs_def dict_reader_def make_row_def)

text \<open>
  C3, amended: for a file whose data line is not blank and has fewer fields than there
  are headers, \<open>read_csv\<close> returns the headers and, among the rows, the row of that line;
  the row has an entry for every header, and every header beyond the fields of the line
  is bound to \<open>None\<close>.
\<close>

theorem read_csv_short_row:
  assumes "fs path = Records (hdr # lines)" and "r \<in> set lines" and "r \<noteq> []"
    and "length r < length hdr"
  shows "\<exists>data. read_csv fs path = Inr (hdr, data) \<and> make_row hdr r \<in> set data
           \<and> (\<forall>h\<in>set hdr. cells (make_row hdr r) h \<noteq> None)
           \<and> (\<forall>h\<in>set (drop (length r) hdr). cells (make_row hdr r) h = Some PyNone)"
proof -
  have "read_csv fs path = Inr (hdr, map (make_row hdr) (filter (\<lambda>r. r \<noteq> []) lines))"
    using assms(1) by (simp add: read_csv_def dict_reader_def)
  moreover have "make_row hdr r \<in> set (map (make_row hdr) (filter (\<lambda>r. r \<noteq> []) lines))"
    using assms(2,3) by simp
  moreover have "\<forall>h\<in>set hdr. cells (make_row hdr r) h \<noteq> None"
    using make_row_short(1) [OF assms(4)] by blast
  ultimately show ?thesis using make_row_short(2) [OF assms(4)] by blast
qed

theorem read_csv_short_row_witness:
  "short_line_fs ''short.csv'' = Records ([''name'', ''price''] # [[''pen'', ''1''], [''ink''], [''cap'', ''abc'']])
   \<and> [''ink''] \<in> set [[''pen'', ''1''], [''ink''], [''cap'', ''abc'']]
   \<and> length [''ink''] < length [''name'', ''price'']
   \<and> cells (make_row [''name'', ''price''] [''ink'']) ''name'' \<noteq> None
   \<and> cells (make_row [''name'', ''price''] [''ink'']) ''price'' = Some PyNone"
proof -
  have a: "short_line_fs ''short.csv'' = Records ([''name'', ''price''] # [[''pen'', ''1''], [''ink''], [''cap'', ''abc'']])"
    by (simp add: short_line_fs_def)
  have b: "[''ink''] \<in> set [[''pen'', ''1''], [''ink''], [''cap'', ''abc'']]" by simp
  have c: "[''ink''] \<noteq> []" by simp
  have d: "length [''ink''] < length [''name'', ''price'']" by simp
  show ?thesis
    using a b c d
      read_csv_short_row [of short_line_fs "''short.csv''" "[''name'', ''price'']"
        "[[''pen'', ''1''], [''ink''], [''cap'', ''abc'']]" "[''ink'']"]
    by auto
qed

end
